theory Spec2Isabelle
  imports Complex_Main
begin

section \<open>Numbers, values and helpers shared by the line and pie series\<close>

text \<open>
  A JavaScript number is modelled as a real, and NaN and the infinities are not numbers
  of the model. Arithmetic is exact, except where \<open>Math.floor\<close> is taken of a
  quotient or a product: there the rounding of the operation decides the integer, and
  the operation is rounded to the nearest double (\<open>roundDouble\<close> below). A value read from a data record is a
  \<open>jsval\<close>: a number, the not-a-number value, a string, \<open>null\<close> or \<open>undefined\<close>.
  A coordinate typed \<open>number | null\<close> is a \<open>real option\<close>, \<open>None\<close> being \<open>null\<close>.
\<close>

datatype jsval = JNum real | JNaN | JStr string | JNull | JUndefined

datatype error = TypeError

text \<open>lodash \<open>isNil\<close>: the value is \<open>null\<close> or \<open>undefined\<close>.\<close>

fun isNil :: "jsval \<Rightarrow> bool" where
  "isNil JNull = True"
| "isNil JUndefined = True"
| "isNil _ = False"

text \<open>
  Modelled from the spec: \<open>isNumber\<close> of util/DataUtils is not among the sources. The
  pie composer adds a value to the sum only when it is a number (spec 4.1, the sum of
  the numeric values); not-a-number, strings, \<open>null\<close> and \<open>undefined\<close> are no numbers.
\<close>

fun isNumber :: "jsval \<Rightarrow> bool" where
  "isNumber (JNum _) = True"
| "isNumber _ = False"

text \<open>
  Modelled from the spec: \<open>mathSign\<close> of util/DataUtils is not among the sources. Spec
  4.1 uses it as the sign of the sweep, \<open>sign(end - start)\<close>: 1, -1 or 0.
\<close>

definition mathSign :: "real \<Rightarrow> real" where
  "mathSign v = (if v = 0 then 0 else if 0 < v then 1 else - 1)"

text \<open>
  Modelled from the spec: \<open>interpolateNumber\<close> of util/DataUtils is not among the
  sources. Spec 4.2: all interpolation is linear in the progress parameter, from the
  first operand at \<open>t = 0\<close> to the second at \<open>t = 1\<close>.
\<close>

definition interpolateNumber :: "real \<Rightarrow> real \<Rightarrow> real \<Rightarrow> real" where
  "interpolateNumber numberA numberB t = numberA + t * (numberB - numberA)"

text \<open>
  Modelled from the spec: the same helper where the line renderer calls it on the
  coordinates of a point, which are typed \<open>number | null\<close>. Spec 4.2 interpolates x
  and y linearly between the previous and the current point and gives no rule for an
  operand that is no number (a missing coordinate); the model then yields the second
  operand, so that a missing coordinate of the current point stays missing. The
  properties of the interpolation at \<open>t = 0\<close> are stated for numeric coordinates.
\<close>

fun interpolateCoordinate :: "real option \<Rightarrow> real option \<Rightarrow> real \<Rightarrow> real option" where
  "interpolateCoordinate (Some a) (Some b) t = Some (interpolateNumber a b t)"
| "interpolateCoordinate _ b t = b"

text \<open>The remainder operator \<open>%\<close> on numbers: the quotient is truncated towards zero.\<close>

definition jsRemainder :: "real \<Rightarrow> real \<Rightarrow> real" where
  "jsRemainder a b =
     a - b * of_int (if 0 \<le> a / b then \<lfloor>a / b\<rfloor> else \<lceil>a / b\<rceil>)"

text \<open>\<open>xs[i]\<close> on an array: \<open>undefined\<close> out of range.\<close>

definition arrayGet :: "'a list \<Rightarrow> int \<Rightarrow> 'a option" where
  "arrayGet xs i = (if 0 \<le> i \<and> i < int (length xs) then Some (xs ! nat i) else None)"

text \<open>\<open>Array.prototype.join\<close> on an array of strings.\<close>

fun join :: "string list \<Rightarrow> string \<Rightarrow> string" where
  "join [] sep = []"
| "join [s] sep = s"
| "join (s # r) sep = s @ sep @ join r sep"

section \<open>Rounding to the nearest double\<close>

text \<open>
  The result of a division or a multiplication of two numbers is the double nearest to
  the exact result, ties going to the even significand (IEEE 754 binary64, the number
  type of the language). A double has 53 significant bits: for \<open>2^e \<le> |v| < 2^(e+1)\<close>
  the doubles around \<open>v\<close> are the multiples of \<open>2^(e-52)\<close>, and below \<open>2^-1022\<close>
  the multiples of \<open>2^-1074\<close>. A result beyond the largest double is an infinity in
  the language and is not modelled.
\<close>

definition exponent :: "real \<Rightarrow> int" where
  "exponent v = \<lfloor>log 2 \<bar>v\<bar>\<rfloor>"

definition pow2 :: "int \<Rightarrow> real" where
  "pow2 k = (if 0 \<le> k then 2 ^ nat k else 1 / 2 ^ nat (- k))"

definition roundHalfEven :: "real \<Rightarrow> int" where
  "roundHalfEven q =
     (let f = \<lfloor>q\<rfloor>; d = q - of_int f
      in if d < 1 / 2 then f else if 1 / 2 < d then f + 1 else if even f then f else f + 1)"

definition roundDouble :: "real \<Rightarrow> real" where
  "roundDouble v =
     (if v = 0 then 0
      else (let ulp = pow2 (max (exponent v) (- 1022) - 52)
            in of_int (roundHalfEven (v / ulp)) * ulp))"

section \<open>Line: the path-length reveal (stroke dasharray)\<close>

text \<open>
  The conversion of a number to its decimal text inside a template string is the
  language's own; the model takes it as the parameter \<open>str\<close>.
\<close>

definition generateSimpleStrokeDasharray :: "(real \<Rightarrow> string) \<Rightarrow> real \<Rightarrow> real \<Rightarrow> string" where
  "generateSimpleStrokeDasharray str totalLength len =
     str len @ ''px '' @ str (totalLength - len) @ ''px''"

text \<open>
  \<open>Line.repeat\<close>: a pattern of odd length is padded with a 0, and the loop appends the
  unit while \<open>i < count\<close>. \<open>count\<close> is the integer \<open>Math.floor\<close> returned.
\<close>

function repeatLoop :: "real list \<Rightarrow> int \<Rightarrow> int \<Rightarrow> real list \<Rightarrow> real list" where
  "repeatLoop linesUnit count i result =
     (if i < count then repeatLoop linesUnit count (i + 1) (result @ linesUnit) else result)"
  by pat_completeness auto
termination
  by (relation "measure (\<lambda>(linesUnit, count, i, result). nat (count - i))") auto

declare repeatLoop.simps [simp del]

definition repeat :: "real list \<Rightarrow> int \<Rightarrow> real list" where
  "repeat lines count =
     (let linesUnit = (if length lines mod 2 \<noteq> 0 then lines @ [0] else lines)
      in repeatLoop linesUnit count 0 [])"

text \<open>
  The loop of \<open>getStrokeDasharray\<close> that cuts the partial period: \<open>i\<close> and
  \<open>sum\<close> (here \<open>sumSoFar\<close>) are its two loop variables, and the result is
  \<open>remainLines\<close>, which stays empty when the loop ends without a break.
\<close>

function remainLinesLoop :: "real list \<Rightarrow> real \<Rightarrow> nat \<Rightarrow> real \<Rightarrow> real list" where
  "remainLinesLoop lines remainLength i sumSoFar =
     (if i < length lines then
        (if sumSoFar + lines ! i > remainLength then take i lines @ [remainLength - sumSoFar]
         else remainLinesLoop lines remainLength (Suc i) (sumSoFar + lines ! i))
      else [])"
  by pat_completeness auto
termination
  by (relation "measure (\<lambda>(lines, remainLength, i, sumSoFar). length lines - i)") auto

declare remainLinesLoop.simps [simp del]

text \<open>
  The array of segment lengths that \<open>getStrokeDasharray\<close> builds for a pattern of
  non-zero unit length, before each entry is printed with its unit. \<open>count\<close> is the
  floor of the rounded quotient; the remainder \<open>%\<close> is exact in the language too.
\<close>

definition strokeDashLines :: "real \<Rightarrow> real \<Rightarrow> real list \<Rightarrow> real \<Rightarrow> real list" where
  "strokeDashLines len totalLength lines lineLength =
     (let count = \<lfloor>roundDouble (len / lineLength)\<rfloor>;
          remainLength = jsRemainder len lineLength;
          restLength = totalLength - len;
          remainLines = remainLinesLoop lines remainLength 0 0;
          emptyLines = (if length remainLines mod 2 = 0 then [0, restLength] else [restLength])
      in repeat lines count @ remainLines @ emptyLines)"

text \<open>
  \<open>getStrokeDasharray\<close>. \<open>lines.reduce\<close> has no initial value: it raises a TypeError
  on the empty array and otherwise folds from the first element.
\<close>

definition getStrokeDasharray ::
  "(real \<Rightarrow> string) \<Rightarrow> real \<Rightarrow> real \<Rightarrow> real list \<Rightarrow> error + string" where
  "getStrokeDasharray str len totalLength lines =
     (case lines of
        [] \<Rightarrow> Inl TypeError
      | l # ls \<Rightarrow>
          (let lineLength = foldl (\<lambda>pre next. pre + next) l ls in
           if lineLength = 0 then Inr (generateSimpleStrokeDasharray str totalLength len)
           else Inr (join (map (\<lambda>line. str line @ ''px'')
                       (strokeDashLines len totalLength lines lineLength)) '', '')))"

text \<open>
  The partial period in the words of the specification: the first element whose running
  sum, the element included, exceeds the remainder is cut to the remainder minus the sum
  before it, and the elements after it are dropped; no such element, no partial period.
\<close>

definition truncatedPartialPeriod :: "real list \<Rightarrow> real \<Rightarrow> real list" where
  "truncatedPartialPeriod lines remainder =
     (case find (\<lambda>i. sum_list (take (Suc i) lines) > remainder) [0..<length lines] of
        None \<Rightarrow> []
      | Some i \<Rightarrow> take i lines @ [remainder - sum_list (take i lines)])"

text \<open>\<open>Array.prototype.map\<close> with the callback's second argument, the index.\<close>

definition mapIndexed :: "('a \<Rightarrow> nat \<Rightarrow> 'b) \<Rightarrow> 'a list \<Rightarrow> 'b list" where
  "mapIndexed f xs = map (\<lambda>(entry, index). f entry index) (zip xs [0..<length xs])"

section \<open>Line: composing the points\<close>

text \<open>
  A point of a line. The fields \<open>value\<close> and \<open>payload\<close> of the source are
  \<open>pointValue\<close> and \<open>payload\<close> here.
\<close>

record 'e LinePointItem =
  x :: "real option"
  y :: "real option"
  pointValue :: jsval
  payload :: 'e

datatype layout = Horizontal | Vertical

text \<open>An axis, through the one field the composer reads: its scale, a value to a pixel.\<close>

record axis =
  scale :: "jsval \<Rightarrow> real"

record TickItem =
  coordinate :: real
  tickValue :: jsval

record ('e, 'o) LineComposed =
  composedPoints :: "'e LinePointItem list"
  composedLayout :: layout
  composedOffset :: 'o

text \<open>
  \<open>Line.getComposedData\<close>. \<open>getCateCoordinateOfLine\<close> and \<open>getValueByDataKey\<close> of
  util/ChartUtils are not among the sources: they are the parameters \<open>cate\<close> (axis,
  ticks, band size, entry, index) and \<open>extract\<close> (entry, key). The result spreads the
  offset beside the points and the layout.
\<close>

definition Line_getComposedData ::
  "(axis \<Rightarrow> TickItem list \<Rightarrow> real \<Rightarrow> 'e \<Rightarrow> nat \<Rightarrow> real option) \<Rightarrow> ('e \<Rightarrow> 'k \<Rightarrow> jsval) \<Rightarrow>
   layout \<Rightarrow> axis \<Rightarrow> axis \<Rightarrow> TickItem list \<Rightarrow> TickItem list \<Rightarrow> 'k \<Rightarrow> real \<Rightarrow> 'e list \<Rightarrow> 'o \<Rightarrow>
   ('e, 'o) LineComposed" where
  "Line_getComposedData cate extract lay xAxis yAxis xAxisTicks yAxisTicks dataKey bandSize
       displayedData offset =
     (let pts = mapIndexed (\<lambda>entry index.
            (let v = extract entry dataKey in
             if lay = Horizontal then
               \<lparr>x = cate xAxis xAxisTicks bandSize entry index,
                y = (if isNil v then None else Some (scale yAxis v)),
                pointValue = v, payload = entry\<rparr>
             else
               \<lparr>x = (if isNil v then None else Some (scale xAxis v)),
                y = cate yAxis yAxisTicks bandSize entry index,
                pointValue = v, payload = entry\<rparr>)) displayedData
      in \<lparr>composedPoints = pts, composedLayout = lay, composedOffset = offset\<rparr>)"

section \<open>Line: animation state and rendering\<close>

text \<open>
  The props and the state of the two series share the names of their animation fields;
  the shared fields are a parent record of both. An optional field is an option.
\<close>

record AnimationProps =
  isAnimationActive :: bool
  animationId :: "nat option"

record AnimationState =
  isAnimationFinished :: bool
  prevAnimationId :: "nat option"

record 'e LineProps = AnimationProps +
  points :: "'e LinePointItem list option"
  animateNewValues :: bool
  strokeDasharray :: "string option"
  width :: real
  height :: real

record 'e LineState = AnimationState +
  totalLength :: real
  prevPoints :: "'e LinePointItem list option"
  curPoints :: "'e LinePointItem list option"

text \<open>
  \<open>Line.getDerivedStateFromProps\<close>. The source returns the fields to change, which
  the framework merges into the previous state, or \<open>null\<close> for no change; the model
  returns the merged state, or \<open>None\<close>. \<open>!==\<close> on two arrays compares references;
  the model compares the sequences, so an incoming array that is another reference to
  equal points is "no change" here, where the source stores the equal array again.
\<close>

definition Line_getDerivedStateFromProps ::
  "'e LineProps \<Rightarrow> 'e LineState \<Rightarrow> 'e LineState option" where
  "Line_getDerivedStateFromProps nextProps prevState =
     (if animationId nextProps \<noteq> prevAnimationId prevState then
        Some (prevState\<lparr>prevAnimationId := animationId nextProps,
                         curPoints := points nextProps,
                         prevPoints := curPoints prevState\<rparr>)
      else if points nextProps \<noteq> curPoints prevState then
        Some (prevState\<lparr>curPoints := points nextProps\<rparr>)
      else None)"

text \<open>
  The rendered curve, through the props that depend on the animation: the points, the
  clip path and the stroke dasharray. An explicit \<open>strokeDasharray\<close> argument
  overrides the one of the props.
\<close>

record 'e CurveElement =
  curvePoints :: "'e LinePointItem list option"
  curveClipPath :: "string option"
  curveStrokeDasharray :: "string option"

definition renderCurveStatically ::
  "'e LineProps \<Rightarrow> 'e LinePointItem list option \<Rightarrow> bool \<Rightarrow> string \<Rightarrow> string option \<Rightarrow> 'e CurveElement" where
  "renderCurveStatically props pts needClip clipPathId dash =
     \<lparr>curvePoints = pts,
      curveClipPath = (if needClip then Some (''url(#clipPath-'' @ clipPathId @ '')'') else None),
      curveStrokeDasharray = (case dash of Some d \<Rightarrow> Some d | None \<Rightarrow> strokeDasharray props)\<rparr>"

text \<open>
  The pairing of a current index with a previous index in \<open>renderCurveWithAnimation\<close>:
  \<open>prevPointsDiffFactor\<close> is the rounded quotient of the two lengths, and the
  previous index is the floor of the rounded product of the index and the factor.
\<close>

definition prevPointsDiffFactor :: "'a list \<Rightarrow> 'b list \<Rightarrow> real" where
  "prevPointsDiffFactor prevPts pts = roundDouble (real (length prevPts) / real (length pts))"

definition prevPointIndex :: "real \<Rightarrow> nat \<Rightarrow> int" where
  "prevPointIndex factor index = \<lfloor>roundDouble (real index * factor)\<rfloor>"

text \<open>
  The interpolated points of one animation tick, when previous points are present: the
  callback of \<open>points.map\<close> in \<open>renderCurveWithAnimation\<close>.
\<close>

definition stepData ::
  "'e LineProps \<Rightarrow> 'e LinePointItem list \<Rightarrow> 'e LinePointItem list \<Rightarrow> real \<Rightarrow> 'e LinePointItem list" where
  "stepData props prevPts pts t =
     (let factor = prevPointsDiffFactor prevPts pts in
      mapIndexed (\<lambda>entry index.
        (case arrayGet prevPts (prevPointIndex factor index) of
           Some prev \<Rightarrow>
             entry\<lparr>x := interpolateCoordinate (x prev) (x entry) t,
                   y := interpolateCoordinate (y prev) (y entry) t\<rparr>
         | None \<Rightarrow>
             if animateNewValues props then
               entry\<lparr>x := interpolateCoordinate (Some (width props * 2)) (x entry) t,
                     y := interpolateCoordinate (Some (height props / 2)) (y entry) t\<rparr>
             else entry\<lparr>x := x entry, y := y entry\<rparr>)) pts)"

text \<open>
  The render callback of \<open>renderCurveWithAnimation\<close> at the progress \<open>t\<close>. The
  dash pattern is read from the prop by \<open>split\<close> and \<open>parseFloat\<close>, the parameter
  \<open>parseLines\<close>; the prop counts as supplied when it is a non-empty string. The
  callback runs only where \<open>renderCurve\<close> found the points present; with the points
  absent \<open>points.map\<close> raises.
\<close>

definition animateCurve ::
  "(real \<Rightarrow> string) \<Rightarrow> (string \<Rightarrow> real list) \<Rightarrow> 'e LineProps \<Rightarrow> 'e LineState \<Rightarrow> bool \<Rightarrow> string \<Rightarrow>
   real \<Rightarrow> error + 'e CurveElement" where
  "animateCurve str parseLines props state needClip clipPathId t =
     (case prevPoints state of
        Some prevPts \<Rightarrow>
          (case points props of
             None \<Rightarrow> Inl TypeError
           | Some pts \<Rightarrow>
               Inr (renderCurveStatically props (Some (stepData props prevPts pts t))
                      needClip clipPathId None))
      | None \<Rightarrow>
          (let curLength = interpolateNumber 0 (totalLength state) t in
           case strokeDasharray props of
             Some (c # cs) \<Rightarrow>
               (case getStrokeDasharray str curLength (totalLength state) (parseLines (c # cs)) of
                  Inl e \<Rightarrow> Inl e
                | Inr currentStrokeDasharray \<Rightarrow>
                    Inr (renderCurveStatically props (points props) needClip clipPathId
                           (Some currentStrokeDasharray)))
           | _ \<Rightarrow>
               Inr (renderCurveStatically props (points props) needClip clipPathId
                      (Some (generateSimpleStrokeDasharray str (totalLength state) curLength)))))"

text \<open>What \<open>renderCurve\<close> returns: the curve itself, or the animation around the callback.\<close>

datatype 'e LineRender =
  Curve "'e CurveElement"
| Animate "real \<Rightarrow> error + 'e CurveElement"

definition renderCurveWithAnimation ::
  "(real \<Rightarrow> string) \<Rightarrow> (string \<Rightarrow> real list) \<Rightarrow> 'e LineProps \<Rightarrow> 'e LineState \<Rightarrow> bool \<Rightarrow> string \<Rightarrow>
   'e LineRender" where
  "renderCurveWithAnimation str parseLines props state needClip clipPathId =
     Animate (\<lambda>t. animateCurve str parseLines props state needClip clipPathId t)"

text \<open>\<open>Line.renderCurve\<close>. lodash \<open>isEqual\<close>, the deep comparison, is equality.\<close>

definition renderCurve ::
  "(real \<Rightarrow> string) \<Rightarrow> (string \<Rightarrow> real list) \<Rightarrow> 'e LineProps \<Rightarrow> 'e LineState \<Rightarrow> bool \<Rightarrow> string \<Rightarrow>
   'e LineRender" where
  "renderCurve str parseLines props state needClip clipPathId =
     (if isAnimationActive props \<and> points props \<noteq> None \<and> points props \<noteq> Some [] \<and>
         ((prevPoints state = None \<and> totalLength state > 0) \<or> prevPoints state \<noteq> points props)
      then renderCurveWithAnimation str parseLines props state needClip clipPathId
      else Curve (renderCurveStatically props (points props) needClip clipPathId None))"

section \<open>Pie: composing the sectors\<close>

text \<open>
  The props of the pie that the composer reads. The angles of the configuration carry the
  suffix \<open>_cfg\<close>, as in the specification, since a sector has a \<open>startAngle\<close> and
  an \<open>endAngle\<close> of its own.
\<close>

record PieItemProps =
  startAngle_cfg :: real
  endAngle_cfg :: real
  paddingAngle_cfg :: real
  minAngle_cfg :: real
  dataKey :: "string option"
  valueKey :: "string option"

text \<open>What \<open>parseCoordinateOfPie\<close> returns; the composer spreads it into every sector.\<close>

record PieCoordinate =
  cx :: real
  cy :: real
  innerRadius :: real
  outerRadius :: real
  maxRadius :: real

text \<open>
  A sector, through its numeric fields, its value and its payload (\<open>value\<close> and
  \<open>payload\<close> in the source). The name, the tooltip fields, the corner radius and the
  fields spread from the entry are not modelled.
\<close>

record 'e PieSectorDataItem = PieCoordinate +
  percent :: real
  midAngle :: real
  middleRadius :: real
  sectorValue :: jsval
  startAngle :: real
  endAngle :: real
  sectorPayload :: 'e
  paddingAngle :: real

record 'e PieComposed = PieCoordinate +
  composedSectors :: "'e PieSectorDataItem list option"
  composedData :: "'e list"

definition parseDeltaAngle :: "real \<Rightarrow> real \<Rightarrow> real" where
  "parseDeltaAngle startA endA =
     (let sign = mathSign (endA - startA);
          deltaAngle = min \<bar>endA - startA\<bar> 360
      in sign * deltaAngle)"

text \<open>
  The key the values are read by: \<open>dataKey\<close>, else \<open>valueKey\<close>, else \<open>'value'\<close>.
\<close>

definition realDataKey :: "PieItemProps \<Rightarrow> string" where
  "realDataKey itemProps =
     (if dataKey itemProps = None \<and> valueKey itemProps = None then ''value''
      else if dataKey itemProps = None then (case valueKey itemProps of Some k \<Rightarrow> k | None \<Rightarrow> ''value'')
      else (case dataKey itemProps of Some k \<Rightarrow> k | None \<Rightarrow> ''value''))"

text \<open>
  \<open>getValueByDataKey\<close> of util/ChartUtils is not among the sources: it is the parameter
  \<open>extract\<close> (entry, key, optional default value). \<open>val\<close> is the value the composer
  reads with the default 0, and the test \<open>val !== 0\<close> is the strict inequality.
\<close>

definition val :: "('e \<Rightarrow> string \<Rightarrow> jsval option \<Rightarrow> jsval) \<Rightarrow> PieItemProps \<Rightarrow> 'e \<Rightarrow> jsval" where
  "val extract itemProps entry = extract entry (realDataKey itemProps) (Some (JNum 0))"

text \<open>The summand \<open>isNumber(val) ? val : 0\<close>.\<close>

definition numberOrZero :: "jsval \<Rightarrow> real" where
  "numberOrZero v = (if isNumber v then (case v of JNum r \<Rightarrow> r | _ \<Rightarrow> 0) else 0)"

definition notZeroItemCount ::
  "('e \<Rightarrow> string \<Rightarrow> jsval option \<Rightarrow> jsval) \<Rightarrow> PieItemProps \<Rightarrow> 'e list \<Rightarrow> nat" where
  "notZeroItemCount extract itemProps pieData =
     length (filter (\<lambda>entry. val extract itemProps entry \<noteq> JNum 0) pieData)"

definition totalPadingAngle ::
  "('e \<Rightarrow> string \<Rightarrow> jsval option \<Rightarrow> jsval) \<Rightarrow> PieItemProps \<Rightarrow> 'e list \<Rightarrow> real" where
  "totalPadingAngle extract itemProps pieData =
     (let absDeltaAngle = \<bar>parseDeltaAngle (startAngle_cfg itemProps) (endAngle_cfg itemProps)\<bar>;
          n = real (notZeroItemCount extract itemProps pieData)
      in (if absDeltaAngle \<ge> 360 then n else n - 1) * paddingAngle_cfg itemProps)"

definition realTotalAngle ::
  "('e \<Rightarrow> string \<Rightarrow> jsval option \<Rightarrow> jsval) \<Rightarrow> PieItemProps \<Rightarrow> 'e list \<Rightarrow> real" where
  "realTotalAngle extract itemProps pieData =
     (let minAngle = \<bar>minAngle_cfg itemProps\<bar>;
          absDeltaAngle = \<bar>parseDeltaAngle (startAngle_cfg itemProps) (endAngle_cfg itemProps)\<bar>
      in absDeltaAngle - real (notZeroItemCount extract itemProps pieData) * minAngle
           - totalPadingAngle extract itemProps pieData)"

definition pieSum ::
  "('e \<Rightarrow> string \<Rightarrow> jsval option \<Rightarrow> jsval) \<Rightarrow> PieItemProps \<Rightarrow> 'e list \<Rightarrow> real" where
  "pieSum extract itemProps pieData =
     foldl (\<lambda>result entry. result + numberOrZero (val extract itemProps entry)) 0 pieData"

text \<open>
  The callback of \<open>pieData.map\<close>, with the sector before it: \<open>prev\<close> is unset
  exactly at the index 0, where the source tests the index.
\<close>

definition composeSector ::
  "('e \<Rightarrow> string \<Rightarrow> jsval option \<Rightarrow> jsval) \<Rightarrow> PieItemProps \<Rightarrow> PieCoordinate \<Rightarrow> real \<Rightarrow> real \<Rightarrow>
   'e PieSectorDataItem option \<Rightarrow> 'e \<Rightarrow> 'e PieSectorDataItem" where
  "composeSector extract itemProps coord sumOfValues budget prev entry =
     (let v = val extract itemProps entry;
          minAngle = \<bar>minAngle_cfg itemProps\<bar>;
          deltaAngle = parseDeltaAngle (startAngle_cfg itemProps) (endAngle_cfg itemProps);
          pct = numberOrZero v / sumOfValues;
          tempStartAngle =
            (case prev of
               Some p \<Rightarrow> endAngle p + mathSign deltaAngle * paddingAngle_cfg itemProps
                                        * (if v \<noteq> JNum 0 then 1 else 0)
             | None \<Rightarrow> startAngle_cfg itemProps);
          tempEndAngle =
            tempStartAngle
              + mathSign deltaAngle * ((if v \<noteq> JNum 0 then minAngle else 0) + pct * budget)
      in \<lparr>cx = cx coord, cy = cy coord, innerRadius = innerRadius coord,
          outerRadius = outerRadius coord, maxRadius = maxRadius coord,
          percent = pct,
          midAngle = (tempStartAngle + tempEndAngle) / 2,
          middleRadius = (innerRadius coord + outerRadius coord) / 2,
          sectorValue = extract entry (realDataKey itemProps) None,
          startAngle = tempStartAngle,
          endAngle = tempEndAngle,
          sectorPayload = entry,
          paddingAngle = mathSign deltaAngle * paddingAngle_cfg itemProps\<rparr>)"

fun composeSectors ::
  "('e \<Rightarrow> string \<Rightarrow> jsval option \<Rightarrow> jsval) \<Rightarrow> PieItemProps \<Rightarrow> PieCoordinate \<Rightarrow> real \<Rightarrow> real \<Rightarrow>
   'e PieSectorDataItem option \<Rightarrow> 'e list \<Rightarrow> 'e PieSectorDataItem list" where
  "composeSectors extract itemProps coord sumOfValues budget prev [] = []"
| "composeSectors extract itemProps coord sumOfValues budget prev (entry # rest) =
     (let s = composeSector extract itemProps coord sumOfValues budget prev entry
      in s # composeSectors extract itemProps coord sumOfValues budget (Some s) rest)"

text \<open>
  \<open>Pie.getComposedData\<close>, from the entries that \<open>getRealPieData\<close> returned and the
  coordinate that \<open>parseCoordinateOfPie\<close> returned. \<open>None\<close> is the \<open>null\<close> returned
  for no entries; \<open>composedSectors\<close> is \<open>None\<close> where \<open>sectors\<close> stays undefined.
\<close>

definition Pie_getComposedData ::
  "('e \<Rightarrow> string \<Rightarrow> jsval option \<Rightarrow> jsval) \<Rightarrow> PieItemProps \<Rightarrow> PieCoordinate \<Rightarrow> 'e list \<Rightarrow>
   'e PieComposed option" where
  "Pie_getComposedData extract itemProps coord pieData =
     (if pieData = [] then None
      else
        (let sumOfValues = pieSum extract itemProps pieData;
             secs = (if sumOfValues > 0
                     then Some (composeSectors extract itemProps coord sumOfValues
                                  (realTotalAngle extract itemProps pieData) None pieData)
                     else None)
         in Some \<lparr>cx = cx coord, cy = cy coord, innerRadius = innerRadius coord,
                   outerRadius = outerRadius coord, maxRadius = maxRadius coord,
                   composedSectors = secs, composedData = pieData\<rparr>))"

section \<open>Pie: animation state and rendering\<close>

text \<open>\<open>activeIndex\<close> is absent, a number or an array of numbers.\<close>

datatype activeIndexProp = NoActiveIndex | ActiveIndex nat | ActiveIndices "nat list"

record ('e, 's) PieProps = AnimationProps +
  sectors :: "'e PieSectorDataItem list option"
  activeIndex :: activeIndexProp
  activeShape :: "'s option"
  inactiveShape :: "'s option"

record 'e PieState = AnimationState +
  prevIsAnimationActive :: bool
  prevSectors :: "'e PieSectorDataItem list option"
  curSectors :: "'e PieSectorDataItem list option"
  sectorToFocus :: nat

text \<open>
  \<open>Pie.getDerivedStateFromProps\<close>, the merged state as for the line. \<open>!==\<close> on the
  sector arrays is modelled on the sequences, as for the points of the line.
\<close>

definition Pie_getDerivedStateFromProps ::
  "('e, 's) PieProps \<Rightarrow> 'e PieState \<Rightarrow> 'e PieState option" where
  "Pie_getDerivedStateFromProps nextProps prevState =
     (if prevIsAnimationActive prevState \<noteq> isAnimationActive nextProps then
        Some (prevState\<lparr>prevIsAnimationActive := isAnimationActive nextProps,
                         prevAnimationId := animationId nextProps,
                         curSectors := sectors nextProps,
                         prevSectors := Some [],
                         isAnimationFinished := True\<rparr>)
      else if isAnimationActive nextProps \<and> animationId nextProps \<noteq> prevAnimationId prevState then
        Some (prevState\<lparr>prevAnimationId := animationId nextProps,
                         curSectors := sectors nextProps,
                         prevSectors := curSectors prevState,
                         isAnimationFinished := True\<rparr>)
      else if sectors nextProps \<noteq> curSectors prevState then
        Some (prevState\<lparr>curSectors := sectors nextProps,
                         isAnimationFinished := True\<rparr>)
      else None)"

definition isActiveIndex :: "('e, 's) PieProps \<Rightarrow> nat \<Rightarrow> bool" where
  "isActiveIndex props i =
     (case activeIndex props of
        ActiveIndices is \<Rightarrow> i \<in> set is
      | ActiveIndex k \<Rightarrow> i = k
      | NoActiveIndex \<Rightarrow> False)"

definition hasActiveIndex :: "('e, 's) PieProps \<Rightarrow> bool" where
  "hasActiveIndex props =
     (case activeIndex props of
        ActiveIndices is \<Rightarrow> length is \<noteq> 0
      | ActiveIndex k \<Rightarrow> True
      | NoActiveIndex \<Rightarrow> False)"

text \<open>
  What is rendered for one sector: the layer around the shape, through the sector it
  draws, its index, whether it is active and the shape option chosen. The presentation
  attributes (stroke, tab index, event handlers) are not modelled.
\<close>

record ('e, 's) SectorLayer =
  layerSector :: "'e PieSectorDataItem"
  layerIndex :: nat
  layerIsActive :: bool
  layerOption :: "'s option"

text \<open>
  \<open>renderSectorsStatically\<close>: \<open>None\<close> in the result is the \<open>null\<close> returned for a
  skipped sector. \<open>sectors.map\<close> raises when the sectors are absent.
\<close>

definition renderSectorsStatically ::
  "('e, 's) PieProps \<Rightarrow> 'e PieSectorDataItem list option \<Rightarrow> error + ('e, 's) SectorLayer option list" where
  "renderSectorsStatically props secsOpt =
     (case secsOpt of
        None \<Rightarrow> Inl TypeError
      | Some secs \<Rightarrow>
          Inr (mapIndexed (\<lambda>entry i.
            if startAngle entry = 0 \<and> endAngle entry = 0 \<and> length secs \<noteq> 1 then None
            else
              (let isActive = isActiveIndex props i;
                   inactive = (if inactiveShape props \<noteq> None \<and> hasActiveIndex props
                               then inactiveShape props else None);
                   sectorOptions = (if isActive then activeShape props else inactive)
               in Some \<lparr>layerSector = entry, layerIndex = i, layerIsActive = isActive,
                         layerOption = sectorOptions\<rparr>)) secs))"

text \<open>
  The loop of the animated pie at the progress \<open>t\<close>: the sectors are walked in
  order with the running angle \<open>curAngle\<close>.
\<close>

fun pieStepData ::
  "'e PieSectorDataItem list option \<Rightarrow> real \<Rightarrow> real \<Rightarrow> nat \<Rightarrow> 'e PieSectorDataItem list \<Rightarrow>
   'e PieSectorDataItem list" where
  "pieStepData prevSecs t curAngle index [] = []"
| "pieStepData prevSecs t curAngle index (entry # rest) =
     (let prev = (case prevSecs of None \<Rightarrow> None | Some ps \<Rightarrow> arrayGet ps (int index));
          padding = (if index > 0 then paddingAngle entry else 0);
          latest =
            (case prev of
               Some p \<Rightarrow>
                 entry\<lparr>startAngle := curAngle + padding,
                       endAngle := curAngle
                         + interpolateNumber (endAngle p - startAngle p)
                             (endAngle entry - startAngle entry) t
                         + padding\<rparr>
             | None \<Rightarrow>
                 entry\<lparr>startAngle := curAngle + padding,
                       endAngle := curAngle
                         + interpolateNumber 0 (endAngle entry - startAngle entry) t
                         + padding\<rparr>)
      in latest # pieStepData prevSecs t (endAngle latest) (Suc index) rest)"

text \<open>
  The render callback of \<open>renderSectorsWithAnimation\<close>: reading the start angle of the
  first sector raises when there is none.
\<close>

definition animateSectors ::
  "('e, 's) PieProps \<Rightarrow> 'e PieState \<Rightarrow> real \<Rightarrow> error + ('e, 's) SectorLayer option list" where
  "animateSectors props state t =
     (case sectors props of
        Some (first # rest) \<Rightarrow>
          renderSectorsStatically props
            (Some (pieStepData (prevSectors state) t (startAngle first) 0 (first # rest)))
      | _ \<Rightarrow> Inl TypeError)"

datatype ('e, 's) PieRender =
  Layers "('e, 's) SectorLayer option list"
| AnimateLayers "real \<Rightarrow> error + ('e, 's) SectorLayer option list"

definition renderSectorsWithAnimation :: "('e, 's) PieProps \<Rightarrow> 'e PieState \<Rightarrow> ('e, 's) PieRender" where
  "renderSectorsWithAnimation props state = AnimateLayers (\<lambda>t. animateSectors props state t)"

text \<open>\<open>Pie.renderSectors\<close>.\<close>

definition renderSectors :: "('e, 's) PieProps \<Rightarrow> 'e PieState \<Rightarrow> error + ('e, 's) PieRender" where
  "renderSectors props state =
     (if isAnimationActive props \<and> sectors props \<noteq> None \<and> sectors props \<noteq> Some [] \<and>
         (prevSectors state = None \<or> prevSectors state \<noteq> sectors props)
      then Inr (renderSectorsWithAnimation props state)
      else (case renderSectorsStatically props (sectors props) of
              Inl e \<Rightarrow> Inl e
            | Inr layers \<Rightarrow> Inr (Layers layers)))"

section \<open>Rounding to the nearest double: properties\<close>

lemma pow2_powr: "pow2 k = 2 powr (of_int k)"
  by (simp add: pow2_def powr_real_of_int inverse_eq_divide)

lemma exponent_eqI:
  assumes "pow2 k \<le> \<bar>v\<bar>" and "\<bar>v\<bar> < pow2 (k + 1)"
  shows "exponent v = k"
proof -
  have "0 < pow2 k" by (simp add: pow2_powr)
  with assms(1) have pos: "0 < \<bar>v\<bar>" by linarith
  show ?thesis
    unfolding exponent_def
    using assms pos by (simp add: floor_log_eq_powr_iff pow2_powr)
qed


lemma exponent_posI:
  assumes "0 < v" and "pow2 k \<le> v" and "v < pow2 (k + 1)"
  shows "exponent v = k"
  using assms by (intro exponent_eqI) simp_all














lemma roundDouble_eval:
  assumes "0 < v" and "pow2 k \<le> v" and "v < pow2 (k + 1)" and "- 1022 \<le> k"
  shows "roundDouble v = of_int (roundHalfEven (v / pow2 (k - 52))) * pow2 (k - 52)"
proof -
  have "exponent v = k" by (rule exponent_posI [OF assms(1-3)])
  then show ?thesis using assms(1,4) by (simp add: roundDouble_def Let_def max_def)
qed

section \<open>The stroke dasharray: properties\<close>

lemma foldl_plus: "foldl (\<lambda>pre next. pre + next) (l::real) ls = l + sum_list ls"
  by (induction ls arbitrary: l) auto

lemma repeatLoop_eq: "repeatLoop u c i r = r @ concat (replicate (nat (c - i)) u)"
proof (induction u c i r rule: repeatLoop.induct)
  case (1 u c i r)
  show ?case
  proof (cases "i < c")
    case True
    then have "nat (c - i) = Suc (nat (c - (i + 1)))" by simp
    with 1 True show ?thesis by (subst repeatLoop.simps) simp
  next
    case False
    then show ?thesis by (subst repeatLoop.simps) simp
  qed
qed

lemma mod_2_parity: "(n mod 2 \<noteq> 0) = odd (n::nat)" "(n mod 2 = 0) = even n"
  by presburger+

lemma repeat_eq:
  "repeat lines count =
     concat (replicate (nat count) (if odd (length lines) then lines @ [0] else lines))"
  unfolding repeat_def Let_def mod_2_parity repeatLoop_eq by simp

lemma remainLinesLoop_find:
  "i \<le> length lines \<Longrightarrow> s = sum_list (take i lines) \<Longrightarrow>
   remainLinesLoop lines r i s =
     (case find (\<lambda>k. sum_list (take (Suc k) lines) > r) [i..<length lines] of
        None \<Rightarrow> [] | Some k \<Rightarrow> take k lines @ [r - sum_list (take k lines)])"
proof (induction lines r i s rule: remainLinesLoop.induct)
  case (1 lines r i s)
  show ?case
  proof (cases "i < length lines")
    case True
    then have up: "[i..<length lines] = i # [Suc i..<length lines]" by (simp add: upt_conv_Cons)
    have tk: "sum_list (take (Suc i) lines) = s + lines ! i"
      using True 1(3) by (simp add: take_Suc_conv_app_nth)
    show ?thesis
    proof (cases "s + lines ! i > r")
      case gt: True
      then show ?thesis using True up tk 1(3) by (subst remainLinesLoop.simps) simp
    next
      case ngt: False
      have "remainLinesLoop lines r (Suc i) (s + lines ! i) =
         (case find (\<lambda>k. sum_list (take (Suc k) lines) > r) [Suc i..<length lines] of
        None \<Rightarrow> [] | Some k \<Rightarrow> take k lines @ [r - sum_list (take k lines)])"
        using 1(1)[OF True ngt] True tk by simp
      then show ?thesis using True up tk ngt by (subst remainLinesLoop.simps) simp
    qed
  next
    case False
    then show ?thesis by (subst remainLinesLoop.simps) simp
  qed
qed

lemma remainLines_truncated:
  "remainLinesLoop lines r 0 0 = truncatedPartialPeriod lines r"
  unfolding truncatedPartialPeriod_def by (rule remainLinesLoop_find) simp_all

lemma repeat_example: "repeat [4, 2] 4 = [4, 2, 4, 2, 4, 2, 4, 2]"
  by (simp add: repeat_eq eval_nat_numeral)

lemma remainLinesLoop_example: "remainLinesLoop [4, 2] 3 0 0 = [3]"
  by (subst remainLinesLoop.simps) simp

lemma roundDouble_27_6: "roundDouble (27 / 6) = 9 / 2"
  by (subst roundDouble_eval [where k = 2])
     (simp_all add: pow2_def roundHalfEven_def Let_def)

text \<open>
  The example of the specification: for the pattern \<open>[4, 2]\<close>, the total length 100
  and the revealed length 27 the count is 4, the remainder 3, and the segments sum to 100.
\<close>

lemma strokeDashLines_example:
  "\<lfloor>roundDouble (27 / 6)\<rfloor> = 4 \<and> jsRemainder 27 6 = 3
   \<and> strokeDashLines 27 100 [4, 2] 6 = [4, 2, 4, 2, 4, 2, 4, 2, 3, 73]
   \<and> sum_list (strokeDashLines 27 100 [4, 2] 6) = 100"
proof -
  have c: "\<lfloor>roundDouble (27 / 6)\<rfloor> = 4" by (simp only: roundDouble_27_6) simp
  have r: "jsRemainder 27 6 = 3" by (simp add: jsRemainder_def)
  have s: "strokeDashLines 27 100 [4, 2] 6 = [4, 2, 4, 2, 4, 2, 4, 2, 3, 73]"
    unfolding strokeDashLines_def Let_def c r repeat_example remainLinesLoop_example by simp
  show ?thesis unfolding s using c r by simp
qed

text \<open>
  The array that \<open>getStrokeDasharray\<close> prints for a pattern of non-zero unit length:
  the pattern (padded with a 0 when its length is odd) repeated \<open>count\<close> times, the
  partial period in the words of the specification, and the final gap.
\<close>

lemma getStrokeDasharray_segments:
  assumes nz: "sum_list lines \<noteq> 0"
  shows "getStrokeDasharray str len totalLen lines =
     Inr (join (map (\<lambda>line. str line @ ''px'')
       (concat (replicate (nat \<lfloor>roundDouble (len / sum_list lines)\<rfloor>)
                  (if odd (length lines) then lines @ [0] else lines))
        @ truncatedPartialPeriod lines (jsRemainder len (sum_list lines))
        @ (if even (length (truncatedPartialPeriod lines (jsRemainder len (sum_list lines))))
           then [0, totalLen - len] else [totalLen - len]))) '', '')"
proof -
  from nz obtain l ls where ls: "lines = l # ls" by (cases lines) auto
  have unit: "foldl (\<lambda>pre next. pre + next) l ls = sum_list lines"
    by (simp add: ls foldl_plus)
  have main: "getStrokeDasharray str len totalLen lines =
     Inr (join (map (\<lambda>line. str line @ ''px'')
       (strokeDashLines len totalLen lines (sum_list lines))) '', '')"
    using nz unit by (simp add: getStrokeDasharray_def ls)
  show ?thesis
    unfolding main strokeDashLines_def Let_def repeat_eq remainLines_truncated mod_2_parity
    by (rule refl)
qed

lemma roundDouble_77_10:
  "roundDouble (77 / 10) = 8669429282688205 / 1125899906842624"
  by (subst roundDouble_eval [where k = 2])
     (simp_all add: pow2_def roundHalfEven_def Let_def)

lemma roundDouble_period_quotient:
  "roundDouble (77 / (8669429282688205 / 1125899906842624 + 8669429282688205 / 1125899906842624)) = 5"
  by (subst roundDouble_eval [where k = 2])
     (simp_all add: pow2_def roundHalfEven_def Let_def)

lemma jsRemainder_period:
  "jsRemainder 77 (8669429282688205 / 1125899906842624 + 8669429282688205 / 1125899906842624)
     = 2167357320672051 / 140737488355328"
  by (simp add: jsRemainder_def)

lemma repeat_period:
  "repeat [d, d] 5 = [d, d, d, d, d, d, d, d, d, d]"
  by (simp add: repeat_eq eval_nat_numeral)

lemma remainLinesLoop_period:
  "remainLinesLoop [8669429282688205 / 1125899906842624, 8669429282688205 / 1125899906842624]
      (2167357320672051 / 140737488355328) 0 0
   = [8669429282688205 / 1125899906842624, 8669429282688203 / 1125899906842624]"
  by (subst remainLinesLoop.simps, simp, subst remainLinesLoop.simps, simp)

text \<open>
  C2. The code computes the count by \<open>Math.floor\<close> of the rounded quotient and the
  remainder exactly, and the two do not always agree. For the pattern \<open>"7.7 7.7"\<close>
  (each element the double nearest to 7.7), the revealed length 77 and the total length
  100 the rounded quotient is 5 and the count 5, where the floor of the quotient is 4
  and the remainder is just below the unit length. The array built has 14 entries, ten of
  them the repeated pattern, and sums to 100 plus the unit length; with the count 4 it
  would have 12 entries and sum to 100.
\<close>

theorem getStrokeDasharray_count_overshoots:
  "roundDouble (77 / 10) = 8669429282688205 / 1125899906842624
   \<and> \<lfloor>roundDouble (77 / (8669429282688205 / 1125899906842624
                              + 8669429282688205 / 1125899906842624))\<rfloor> = 5
   \<and> \<lfloor>(77 :: real) / (8669429282688205 / 1125899906842624
                              + 8669429282688205 / 1125899906842624)\<rfloor> = 4
   \<and> jsRemainder 77 (8669429282688205 / 1125899906842624 + 8669429282688205 / 1125899906842624)
        = 2167357320672051 / 140737488355328
   \<and> strokeDashLines 77 100
        [8669429282688205 / 1125899906842624, 8669429282688205 / 1125899906842624]
        (8669429282688205 / 1125899906842624 + 8669429282688205 / 1125899906842624)
      = [8669429282688205 / 1125899906842624, 8669429282688205 / 1125899906842624,
         8669429282688205 / 1125899906842624, 8669429282688205 / 1125899906842624,
         8669429282688205 / 1125899906842624, 8669429282688205 / 1125899906842624,
         8669429282688205 / 1125899906842624, 8669429282688205 / 1125899906842624,
         8669429282688205 / 1125899906842624, 8669429282688205 / 1125899906842624,
         8669429282688205 / 1125899906842624, 8669429282688203 / 1125899906842624,
         0, 23]
   \<and> sum_list (strokeDashLines 77 100
        [8669429282688205 / 1125899906842624, 8669429282688205 / 1125899906842624]
        (8669429282688205 / 1125899906842624 + 8669429282688205 / 1125899906842624))
      = 100 + (8669429282688205 / 1125899906842624 + 8669429282688205 / 1125899906842624)"
proof -
  have c: "\<lfloor>roundDouble (77 / (8669429282688205 / 1125899906842624
                              + 8669429282688205 / 1125899906842624))\<rfloor> = 5"
    by (simp only: roundDouble_period_quotient) simp
  have f: "\<lfloor>(77 :: real) / (8669429282688205 / 1125899906842624
                              + 8669429282688205 / 1125899906842624)\<rfloor> = 4"
    by simp
  have s: "strokeDashLines 77 100
        [8669429282688205 / 1125899906842624, 8669429282688205 / 1125899906842624]
        (8669429282688205 / 1125899906842624 + 8669429282688205 / 1125899906842624)
      = [8669429282688205 / 1125899906842624, 8669429282688205 / 1125899906842624,
         8669429282688205 / 1125899906842624, 8669429282688205 / 1125899906842624,
         8669429282688205 / 1125899906842624, 8669429282688205 / 1125899906842624,
         8669429282688205 / 1125899906842624, 8669429282688205 / 1125899906842624,
         8669429282688205 / 1125899906842624, 8669429282688205 / 1125899906842624,
         8669429282688205 / 1125899906842624, 8669429282688203 / 1125899906842624,
         0, 23]"
    unfolding strokeDashLines_def Let_def c jsRemainder_period repeat_period
      remainLinesLoop_period
    by simp
  show ?thesis
    unfolding s using roundDouble_77_10 c f jsRemainder_period by simp
qed

text \<open>
  C9. With no custom dash pattern (the prop absent or the empty string) and no previous
  points, the animated curve at the progress \<open>t\<close> carries the dasharray
  \<open>"<revealed>px <total - revealed>px"\<close>, the revealed length being \<open>t\<close> times
  the total length, which is what \<open>generateSimpleStrokeDasharray\<close> prints for every
  total and revealed length; and \<open>getStrokeDasharray\<close>, given a pattern of at least
  one element whose elements sum to 0, returns that same dasharray.
\<close>

theorem stroke_dasharray_without_pattern:
  "(prevPoints state = None \<longrightarrow>
      (strokeDasharray props = None \<or> strokeDasharray props = Some []) \<longrightarrow>
      animateCurve str parseLines props state needClip clipPathId t =
        Inr (renderCurveStatically props (points props) needClip clipPathId
          (Some (str (t * totalLength state) @ ''px ''
                  @ str (totalLength state - t * totalLength state) @ ''px''))))
   \<and> generateSimpleStrokeDasharray str totalLen len
         = str len @ ''px '' @ str (totalLen - len) @ ''px''
   \<and> (lines \<noteq> [] \<longrightarrow> sum_list lines = 0 \<longrightarrow>
        getStrokeDasharray str len totalLen lines
          = Inr (str len @ ''px '' @ str (totalLen - len) @ ''px''))"
proof (intro conjI impI)
  assume "prevPoints state = None"
    and "strokeDasharray props = None \<or> strokeDasharray props = Some []"
  then show "animateCurve str parseLines props state needClip clipPathId t =
        Inr (renderCurveStatically props (points props) needClip clipPathId
          (Some (str (t * totalLength state) @ ''px ''
                  @ str (totalLength state - t * totalLength state) @ ''px'')))"
    by (auto simp: animateCurve_def interpolateNumber_def generateSimpleStrokeDasharray_def Let_def)
next
  show "generateSimpleStrokeDasharray str totalLen len
         = str len @ ''px '' @ str (totalLen - len) @ ''px''"
    by (simp add: generateSimpleStrokeDasharray_def)
next
  assume "lines \<noteq> []" and z: "sum_list lines = 0"
  then obtain l ls where ls: "lines = l # ls" by (cases lines) auto
  have "foldl (\<lambda>pre next. pre + next) l ls = 0"
    using z by (simp add: ls foldl_plus)
  then show "getStrokeDasharray str len totalLen lines
          = Inr (str len @ ''px '' @ str (totalLen - len) @ ''px'')"
    by (simp add: getStrokeDasharray_def ls generateSimpleStrokeDasharray_def)
qed

theorem stroke_dasharray_without_pattern_witness:
  "prevPoints \<lparr>isAnimationFinished = False, prevAnimationId = None, totalLength = 100,
       prevPoints = None, curPoints = (None :: unit LinePointItem list option)\<rparr> = None
   \<and> animateCurve (\<lambda>r. if r = 25 then ''25'' else ''75'') (\<lambda>s. [])
       \<lparr>isAnimationActive = True, animationId = None, points = Some [],
        animateNewValues = True, strokeDasharray = None, width = 0, height = 0\<rparr>
       \<lparr>isAnimationFinished = False, prevAnimationId = None, totalLength = 100,
        prevPoints = None, curPoints = (None :: unit LinePointItem list option)\<rparr>
       False ''id'' (1 / 4)
     = Inr \<lparr>curvePoints = Some [], curveClipPath = None,
            curveStrokeDasharray = Some ''25px 75px''\<rparr>
   \<and> [2, - 2 :: real] \<noteq> [] \<and> sum_list [2, - 2 :: real] = 0
   \<and> getStrokeDasharray (\<lambda>r. if r = 25 then ''25'' else ''75'') 25 100 [2, - 2]
       = Inr ''25px 75px''"
  using stroke_dasharray_without_pattern
    [of "\<lparr>isAnimationFinished = False, prevAnimationId = None, totalLength = 100,
        prevPoints = None, curPoints = (None :: unit LinePointItem list option)\<rparr>"
       "\<lparr>isAnimationActive = True, animationId = None, points = Some [],
        animateNewValues = True, strokeDasharray = None, width = 0, height = 0\<rparr>"
       "\<lambda>r. if r = 25 then ''25'' else ''75''" "\<lambda>s. []" False "''id''" "1 / 4"
       100 25 "[2, - 2]"]
  by (simp add: renderCurveStatically_def)


section \<open>The line animation: properties\<close>

lemma length_mapIndexed: "length (mapIndexed f xs) = length xs"
  by (simp add: mapIndexed_def)

lemma nth_mapIndexed: "i < length xs \<Longrightarrow> mapIndexed f xs ! i = f (xs ! i) i"
  by (simp add: mapIndexed_def)

lemma stepData_nth:
  assumes "i < length pts"
  shows "stepData props prevPts pts t ! i =
     (case arrayGet prevPts (prevPointIndex (prevPointsDiffFactor prevPts pts) i) of
        Some prev \<Rightarrow>
          (pts ! i)\<lparr>x := interpolateCoordinate (x prev) (x (pts ! i)) t,
                    y := interpolateCoordinate (y prev) (y (pts ! i)) t\<rparr>
      | None \<Rightarrow>
          if animateNewValues props then
            (pts ! i)\<lparr>x := interpolateCoordinate (Some (width props * 2)) (x (pts ! i)) t,
                      y := interpolateCoordinate (Some (height props / 2)) (y (pts ! i)) t\<rparr>
          else pts ! i)"
  using assms by (simp add: stepData_def nth_mapIndexed Let_def split: option.splits)






lemma roundDouble_15_11: "roundDouble (15 / 11) = 6141272219141585 / 4503599627370496"
  by (subst roundDouble_eval [where k = 0])
     (simp_all add: pow2_def roundHalfEven_def Let_def)

lemma roundDouble_index_11:
  "roundDouble (11 * (6141272219141585 / 4503599627370496))
     = 8444249301319679 / 562949953421312"
  by (subst roundDouble_eval [where k = 3])
     (simp_all add: pow2_def roundHalfEven_def Let_def)

lemma prevPointIndex_30_22_11:
  assumes "length prevPts = 30" and "length pts = 22"
  shows "prevPointIndex (prevPointsDiffFactor prevPts pts) 11 = 14"
proof -
  have q: "real (30::nat) / real (22::nat) = 15 / 11" by simp
  have f: "prevPointsDiffFactor prevPts pts = 6141272219141585 / 4503599627370496"
    unfolding prevPointsDiffFactor_def assms q by (rule roundDouble_15_11)
  have i: "real (11::nat) = 11" by simp
  show ?thesis
    unfolding prevPointIndex_def f i roundDouble_index_11 by simp
qed

text \<open>
  C3. The code pairs the current index \<open>i\<close> with \<open>Math.floor\<close> of the rounded
  product of \<open>i\<close> and the rounded quotient of the lengths, which is not always
  \<open>floor (i * |previous| / |current|)\<close>. With 30 previous points, 22 current points
  and the index 11 the exact value is 15, and the code pairs the previous index 14: the
  point drawn at \<open>t = 0\<close> carries the x of the previous point 14.
\<close>

theorem line_pairing_rounds_down:
  "prevPointIndex (prevPointsDiffFactor (map (\<lambda>k. \<lparr>x = Some (real k), y = Some 0, pointValue = JNum 0, payload = ()\<rparr>) [0..<30])
        (map (\<lambda>k. \<lparr>x = Some (100 + real k), y = Some 7, pointValue = JNum 1, payload = ()\<rparr>) [0..<22])) 11 = 14
   \<and> \<lfloor>(11 :: real) * 30 / 22\<rfloor> = 15
   \<and> x (stepData
        \<lparr>isAnimationActive = True, animationId = None, points = None,
      animateNewValues = True, strokeDasharray = None, width = 100, height = 50\<rparr>
        (map (\<lambda>k. \<lparr>x = Some (real k), y = Some 0, pointValue = JNum 0, payload = ()\<rparr>) [0..<30])
        (map (\<lambda>k. \<lparr>x = Some (100 + real k), y = Some 7, pointValue = JNum 1, payload = ()\<rparr>) [0..<22]) 0 ! 11) = Some 14"
proof -
  have i: "prevPointIndex (prevPointsDiffFactor (map (\<lambda>k. \<lparr>x = Some (real k), y = Some 0, pointValue = JNum 0, payload = ()\<rparr>) [0..<30])
        (map (\<lambda>k. \<lparr>x = Some (100 + real k), y = Some 7, pointValue = JNum 1, payload = ()\<rparr>) [0..<22])) 11 = 14"
    by (rule prevPointIndex_30_22_11) simp_all
  show ?thesis
    unfolding i by (simp add: stepData_nth i arrayGet_def interpolateNumber_def)
qed







section \<open>Composing the points of a line: properties\<close>

lemma Line_getComposedData_nth:
  assumes "i < length displayedData"
  shows "composedPoints (Line_getComposedData cate extract lay xAxis yAxis xAxisTicks
            yAxisTicks key bandSize displayedData offset) ! i =
     (if lay = Horizontal then
        \<lparr>x = cate xAxis xAxisTicks bandSize (displayedData ! i) i,
         y = (if isNil (extract (displayedData ! i) key) then None
              else Some (scale yAxis (extract (displayedData ! i) key))),
         pointValue = extract (displayedData ! i) key, payload = displayedData ! i\<rparr>
      else
        \<lparr>x = (if isNil (extract (displayedData ! i) key) then None
              else Some (scale xAxis (extract (displayedData ! i) key))),
         y = cate yAxis yAxisTicks bandSize (displayedData ! i) i,
         pointValue = extract (displayedData ! i) key, payload = displayedData ! i\<rparr>)"
  using assms by (simp add: Line_getComposedData_def nth_mapIndexed Let_def)

lemma isNil_iff: "isNil v = (v = JNull \<or> v = JUndefined)"
  by (cases v) simp_all

text \<open>
  C4. \<open>Line.getComposedData\<close> yields one point per datum, in the order of the data.
  In the horizontal layout x is the category coordinate computed from the x axis, its
  ticks, the band size, the datum and its index, and y is \<open>null\<close> exactly when the
  extracted value is \<open>null\<close> or \<open>undefined\<close>, the y scale of the value otherwise;
  in the vertical layout the roles are swapped. For the data
  \<open>[{v:1},{v:3},{v:2}]\<close>, the key \<open>v\<close>, category ticks at 0, 10, 20 and the
  value scale \<open>100 - 10 v\<close> the points are (0, 90), (10, 70), (20, 80).
\<close>

theorem Line_getComposedData_points:
  assumes "i < length displayedData"
  shows "length (composedPoints (Line_getComposedData cate extract lay xAxis yAxis xAxisTicks
            yAxisTicks key bandSize displayedData offset)) = length displayedData
    \<and> payload (composedPoints (Line_getComposedData cate extract lay xAxis yAxis xAxisTicks
            yAxisTicks key bandSize displayedData offset) ! i) = displayedData ! i
    \<and> x (composedPoints (Line_getComposedData cate extract Horizontal xAxis yAxis xAxisTicks
            yAxisTicks key bandSize displayedData offset) ! i)
          = cate xAxis xAxisTicks bandSize (displayedData ! i) i
    \<and> y (composedPoints (Line_getComposedData cate extract Horizontal xAxis yAxis xAxisTicks
            yAxisTicks key bandSize displayedData offset) ! i)
          = (if extract (displayedData ! i) key = JNull \<or> extract (displayedData ! i) key = JUndefined
             then None else Some (scale yAxis (extract (displayedData ! i) key)))
    \<and> y (composedPoints (Line_getComposedData cate extract Vertical xAxis yAxis xAxisTicks
            yAxisTicks key bandSize displayedData offset) ! i)
          = cate yAxis yAxisTicks bandSize (displayedData ! i) i
    \<and> x (composedPoints (Line_getComposedData cate extract Vertical xAxis yAxis xAxisTicks
            yAxisTicks key bandSize displayedData offset) ! i)
          = (if extract (displayedData ! i) key = JNull \<or> extract (displayedData ! i) key = JUndefined
             then None else Some (scale xAxis (extract (displayedData ! i) key)))
    \<and> composedPoints (Line_getComposedData
             (\<lambda>axis ticks band entry index. map_option coordinate (arrayGet ticks (int index)))
             (\<lambda>entry k. case map_of entry k of Some v \<Rightarrow> v | None \<Rightarrow> JUndefined)
             Horizontal
             \<lparr>scale = (\<lambda>v. 0)\<rparr>
             \<lparr>scale = (\<lambda>v. case v of JNum r \<Rightarrow> 100 - r * 10 | _ \<Rightarrow> 0)\<rparr>
             [\<lparr>coordinate = 0, tickValue = JNum 0\<rparr>, \<lparr>coordinate = 10, tickValue = JNum 1\<rparr>,
              \<lparr>coordinate = 20, tickValue = JNum 2\<rparr>]
             [] ''v'' 0
             [[(''v'', JNum 1)], [(''v'', JNum 3)], [(''v'', JNum 2)]] ())
        = [\<lparr>x = Some 0, y = Some 90, pointValue = JNum 1, payload = [(''v'', JNum 1)]\<rparr>,
           \<lparr>x = Some 10, y = Some 70, pointValue = JNum 3, payload = [(''v'', JNum 3)]\<rparr>,
           \<lparr>x = Some 20, y = Some 80, pointValue = JNum 2, payload = [(''v'', JNum 2)]\<rparr>]"
proof -
  have ex: "composedPoints (Line_getComposedData
             (\<lambda>axis ticks band entry index. map_option coordinate (arrayGet ticks (int index)))
             (\<lambda>entry k. case map_of entry k of Some v \<Rightarrow> v | None \<Rightarrow> JUndefined)
             Horizontal
             \<lparr>scale = (\<lambda>v. 0)\<rparr>
             \<lparr>scale = (\<lambda>v. case v of JNum r \<Rightarrow> 100 - r * 10 | _ \<Rightarrow> 0)\<rparr>
             [\<lparr>coordinate = 0, tickValue = JNum 0\<rparr>, \<lparr>coordinate = 10, tickValue = JNum 1\<rparr>,
              \<lparr>coordinate = 20, tickValue = JNum 2\<rparr>]
             [] ''v'' 0
             [[(''v'', JNum 1)], [(''v'', JNum 3)], [(''v'', JNum 2)]] ())
        = [\<lparr>x = Some 0, y = Some 90, pointValue = JNum 1, payload = [(''v'', JNum 1)]\<rparr>,
           \<lparr>x = Some 10, y = Some 70, pointValue = JNum 3, payload = [(''v'', JNum 3)]\<rparr>,
           \<lparr>x = Some 20, y = Some 80, pointValue = JNum 2, payload = [(''v'', JNum 2)]\<rparr>]"
    by (simp add: Line_getComposedData_def mapIndexed_def arrayGet_def upt_conv_Cons Let_def)
  have len: "length (composedPoints (Line_getComposedData cate extract lay xAxis yAxis
      xAxisTicks yAxisTicks key bandSize displayedData offset)) = length displayedData"
    by (simp add: Line_getComposedData_def length_mapIndexed Let_def)
  show ?thesis
    unfolding ex using len by (simp add: isNil_iff Line_getComposedData_nth [OF assms])
qed


theorem Line_getComposedData_points_witness:
  "(1::nat) < length [[(''v'', JNum 3)], [(''v'', JNull)]]
   \<and> y (composedPoints (Line_getComposedData
        (\<lambda>axis ticks band entry index. map_option coordinate (arrayGet ticks (int index)))
        (\<lambda>entry k. case map_of entry k of Some v \<Rightarrow> v | None \<Rightarrow> JUndefined)
        Horizontal
        \<lparr>scale = (\<lambda>v. 0)\<rparr>
        \<lparr>scale = (\<lambda>v. case v of JNum r \<Rightarrow> 100 - r * 10 | _ \<Rightarrow> 0)\<rparr>
        [\<lparr>coordinate = 0, tickValue = JNum 0\<rparr>, \<lparr>coordinate = 10, tickValue = JNum 1\<rparr>]
        [] ''v'' 0 [[(''v'', JNum 3)], [(''v'', JNull)]] ()) ! 1) = None
   \<and> x (composedPoints (Line_getComposedData
        (\<lambda>axis ticks band entry index. map_option coordinate (arrayGet ticks (int index)))
        (\<lambda>entry k. case map_of entry k of Some v \<Rightarrow> v | None \<Rightarrow> JUndefined)
        Horizontal
        \<lparr>scale = (\<lambda>v. 0)\<rparr>
        \<lparr>scale = (\<lambda>v. case v of JNum r \<Rightarrow> 100 - r * 10 | _ \<Rightarrow> 0)\<rparr>
        [\<lparr>coordinate = 0, tickValue = JNum 0\<rparr>, \<lparr>coordinate = 10, tickValue = JNum 1\<rparr>]
        [] ''v'' 0 [[(''v'', JNum 3)], [(''v'', JNull)]] ()) ! 1) = Some 10"
  using Line_getComposedData_points
    [of 1 "[[(''v'', JNum 3)], [(''v'', JNull)]]"
       "\<lambda>axis ticks band entry index. map_option coordinate (arrayGet ticks (int index))"
       "\<lambda>entry k. case map_of entry k of Some v \<Rightarrow> v | None \<Rightarrow> JUndefined"
       Horizontal
       "\<lparr>scale = (\<lambda>v. 0)\<rparr>"
       "\<lparr>scale = (\<lambda>v. case v of JNum r \<Rightarrow> 100 - r * 10 | _ \<Rightarrow> 0)\<rparr>"
       "[\<lparr>coordinate = 0, tickValue = JNum 0\<rparr>, \<lparr>coordinate = 10, tickValue = JNum 1\<rparr>]"
       "[]" "''v''" 0 "()"]
  by (simp add: arrayGet_def)


section \<open>The animation state: properties\<close>

text \<open>
  C5, as amended. When the incoming \<open>animationId\<close> differs from the stored one (for
  the pie: while the animation is active and its activity flag is unchanged), the previous
  geometry becomes the old current geometry and the current geometry becomes the incoming
  sequence. When the \<open>animationId\<close> is unchanged and the incoming sequence differs
  from the stored one, only the current geometry is replaced and the previous geometry
  keeps its value. For the pie, a change of \<open>isAnimationActive\<close> sets the previous
  geometry to the empty sequence.
\<close>

theorem getDerivedStateFromProps_transitions:
  "(animationId lineProps \<noteq> prevAnimationId lineState \<longrightarrow>
      (\<exists>s. Line_getDerivedStateFromProps lineProps lineState = Some s
         \<and> prevPoints s = curPoints lineState \<and> curPoints s = points lineProps
         \<and> prevAnimationId s = animationId lineProps))
   \<and> (animationId lineProps = prevAnimationId lineState \<longrightarrow>
        points lineProps \<noteq> curPoints lineState \<longrightarrow>
      (\<exists>s. Line_getDerivedStateFromProps lineProps lineState = Some s
         \<and> prevPoints s = prevPoints lineState \<and> curPoints s = points lineProps))
   \<and> (prevIsAnimationActive pieState = isAnimationActive pieProps \<longrightarrow>
        isAnimationActive pieProps \<longrightarrow>
        animationId pieProps \<noteq> prevAnimationId pieState \<longrightarrow>
      (\<exists>s. Pie_getDerivedStateFromProps pieProps pieState = Some s
         \<and> prevSectors s = curSectors pieState \<and> curSectors s = sectors pieProps
         \<and> prevAnimationId s = animationId pieProps))
   \<and> (prevIsAnimationActive pieState = isAnimationActive pieProps \<longrightarrow>
        \<not> (isAnimationActive pieProps \<and> animationId pieProps \<noteq> prevAnimationId pieState) \<longrightarrow>
        sectors pieProps \<noteq> curSectors pieState \<longrightarrow>
      (\<exists>s. Pie_getDerivedStateFromProps pieProps pieState = Some s
         \<and> prevSectors s = prevSectors pieState \<and> curSectors s = sectors pieProps))
   \<and> (prevIsAnimationActive pieState \<noteq> isAnimationActive pieProps \<longrightarrow>
      (\<exists>s. Pie_getDerivedStateFromProps pieProps pieState = Some s
         \<and> prevSectors s = Some [] \<and> curSectors s = sectors pieProps))"
  by (simp add: Line_getDerivedStateFromProps_def Pie_getDerivedStateFromProps_def)

text \<open>
  C5 as stated fails: with the \<open>animationId\<close> unchanged, new points that differ from
  the stored ones replace \<open>curPoints\<close>, and \<open>prevPoints\<close> does not become the old
  \<open>curPoints\<close>.
\<close>

theorem getDerivedStateFromProps_keeps_previous:
  "points \<lparr>isAnimationActive = True, animationId = Some 1,
      points = Some [\<lparr>x = Some 5, y = Some 6, pointValue = JNum 2, payload = ()\<rparr>],
      animateNewValues = True, strokeDasharray = None, width = 0, height = 0\<rparr>
     \<noteq> curPoints \<lparr>isAnimationFinished = True, prevAnimationId = Some 1, totalLength = 0,
      prevPoints = None,
      curPoints = Some [\<lparr>x = Some 1, y = Some 2, pointValue = JNum 1, payload = ()\<rparr>]\<rparr>
   \<and> Line_getDerivedStateFromProps
     \<lparr>isAnimationActive = True, animationId = Some 1,
      points = Some [\<lparr>x = Some 5, y = Some 6, pointValue = JNum 2, payload = ()\<rparr>],
      animateNewValues = True, strokeDasharray = None, width = 0, height = 0\<rparr>
     \<lparr>isAnimationFinished = True, prevAnimationId = Some 1, totalLength = 0,
      prevPoints = None,
      curPoints = Some [\<lparr>x = Some 1, y = Some 2, pointValue = JNum 1, payload = ()\<rparr>]\<rparr>
   = Some \<lparr>isAnimationFinished = True, prevAnimationId = Some 1, totalLength = 0,
      prevPoints = None,
      curPoints = Some [\<lparr>x = Some 5, y = Some 6, pointValue = JNum 2, payload = ()\<rparr>]\<rparr>"
  by (simp add: Line_getDerivedStateFromProps_def)

theorem getDerivedStateFromProps_transitions_witness:
  "(\<exists>s. Line_getDerivedStateFromProps
       \<lparr>isAnimationActive = True, animationId = Some 2,
        points = Some [\<lparr>x = Some 5, y = Some 6, pointValue = JNum 2, payload = ()\<rparr>],
        animateNewValues = True, strokeDasharray = None, width = 0, height = 0\<rparr>
       \<lparr>isAnimationFinished = True, prevAnimationId = Some 1, totalLength = 0,
        prevPoints = None,
        curPoints = Some [\<lparr>x = Some 1, y = Some 2, pointValue = JNum 1, payload = ()\<rparr>]\<rparr>
       = Some s
     \<and> prevPoints s = Some [\<lparr>x = Some 1, y = Some 2, pointValue = JNum 1, payload = ()\<rparr>]
     \<and> curPoints s = Some [\<lparr>x = Some 5, y = Some 6, pointValue = JNum 2, payload = ()\<rparr>])
   \<and> (\<exists>s. Pie_getDerivedStateFromProps
       \<lparr>isAnimationActive = True, animationId = Some 1,
        sectors = (None :: unit PieSectorDataItem list option), activeIndex = NoActiveIndex,
        activeShape = (None :: unit option), inactiveShape = None\<rparr>
       \<lparr>isAnimationFinished = True, prevAnimationId = Some 1, prevIsAnimationActive = True,
        prevSectors = None, curSectors = Some [], sectorToFocus = 0\<rparr>
       = Some s
     \<and> prevSectors s = None \<and> curSectors s = None)"
  using getDerivedStateFromProps_transitions
    [of "\<lparr>isAnimationActive = True, animationId = Some 2,
        points = Some [\<lparr>x = Some 5, y = Some 6, pointValue = JNum 2, payload = ()\<rparr>],
        animateNewValues = True, strokeDasharray = None, width = 0, height = 0\<rparr>"
       "\<lparr>isAnimationFinished = True, prevAnimationId = Some 1, totalLength = 0,
        prevPoints = None,
        curPoints = Some [\<lparr>x = Some 1, y = Some 2, pointValue = JNum 1, payload = ()\<rparr>]\<rparr>"
       "\<lparr>isAnimationFinished = True, prevAnimationId = Some 1, prevIsAnimationActive = True,
        prevSectors = None, curSectors = Some [], sectorToFocus = 0\<rparr>"
       "\<lparr>isAnimationActive = True, animationId = Some 1,
        sectors = (None :: unit PieSectorDataItem list option), activeIndex = NoActiveIndex,
        activeShape = (None :: unit option), inactiveShape = None\<rparr>"]
  by auto

section \<open>The pie composer: properties\<close>

text \<open>
  C6, as amended. For every non-empty sequence of pie entries whose sum of numeric values
  is at most 0, \<open>Pie.getComposedData\<close> returns a result without sectors (the field
  stays undefined), with the coordinate fields and the data.
\<close>

theorem Pie_getComposedData_no_sectors:
  assumes "pieData \<noteq> []" and "pieSum extract itemProps pieData \<le> 0"
  shows "\<exists>res. Pie_getComposedData extract itemProps coord pieData = Some res
    \<and> composedSectors res = None \<and> composedData res = pieData
    \<and> cx res = cx coord \<and> cy res = cy coord \<and> innerRadius res = innerRadius coord
    \<and> outerRadius res = outerRadius coord \<and> maxRadius res = maxRadius coord"
  using assms by (simp add: Pie_getComposedData_def Let_def)

text \<open>
  C6 as stated fails for no entries: the sum is 0, and the composer returns \<open>null\<close>,
  so neither the coordinate fields nor the data are returned.
\<close>

theorem Pie_getComposedData_empty_data:
  "pieSum (\<lambda>entry k d. case map_of entry k of Some v \<Rightarrow> v
                         | None \<Rightarrow> (case d of Some v \<Rightarrow> v | None \<Rightarrow> JUndefined))
      \<lparr>startAngle_cfg = 0, endAngle_cfg = 360, paddingAngle_cfg = 0, minAngle_cfg = 0,
       dataKey = Some ''value'', valueKey = None\<rparr> [] \<le> 0
   \<and> Pie_getComposedData
      (\<lambda>entry k d. case map_of entry k of Some v \<Rightarrow> v
                         | None \<Rightarrow> (case d of Some v \<Rightarrow> v | None \<Rightarrow> JUndefined))
      \<lparr>startAngle_cfg = 0, endAngle_cfg = 360, paddingAngle_cfg = 0, minAngle_cfg = 0,
       dataKey = Some ''value'', valueKey = None\<rparr>
      \<lparr>cx = 100, cy = 100, innerRadius = 0, outerRadius = 80, maxRadius = 100\<rparr> [] = None"
  by (simp add: Pie_getComposedData_def pieSum_def)

theorem Pie_getComposedData_no_sectors_witness:
  "[[(''value'', JNum 0)], [(''value'', JStr ''a'')]] \<noteq> []
   \<and> pieSum (\<lambda>entry k d. case map_of entry k of Some v \<Rightarrow> v
                         | None \<Rightarrow> (case d of Some v \<Rightarrow> v | None \<Rightarrow> JUndefined))
      \<lparr>startAngle_cfg = 0, endAngle_cfg = 360, paddingAngle_cfg = 0, minAngle_cfg = 0,
       dataKey = Some ''value'', valueKey = None\<rparr>
      [[(''value'', JNum 0)], [(''value'', JStr ''a'')]] \<le> 0
   \<and> (\<exists>res. Pie_getComposedData
      (\<lambda>entry k d. case map_of entry k of Some v \<Rightarrow> v
                         | None \<Rightarrow> (case d of Some v \<Rightarrow> v | None \<Rightarrow> JUndefined))
      \<lparr>startAngle_cfg = 0, endAngle_cfg = 360, paddingAngle_cfg = 0, minAngle_cfg = 0,
       dataKey = Some ''value'', valueKey = None\<rparr>
      \<lparr>cx = 100, cy = 100, innerRadius = 0, outerRadius = 80, maxRadius = 100\<rparr>
      [[(''value'', JNum 0)], [(''value'', JStr ''a'')]] = Some res
     \<and> composedSectors res = None
     \<and> composedData res = [[(''value'', JNum 0)], [(''value'', JStr ''a'')]]
     \<and> cx res = 100)"
proof -
  have s: "pieSum (\<lambda>entry k d. case map_of entry k of Some v \<Rightarrow> v
                         | None \<Rightarrow> (case d of Some v \<Rightarrow> v | None \<Rightarrow> JUndefined))
      \<lparr>startAngle_cfg = 0, endAngle_cfg = 360, paddingAngle_cfg = 0, minAngle_cfg = 0,
       dataKey = Some ''value'', valueKey = None\<rparr>
      [[(''value'', JNum 0)], [(''value'', JStr ''a'')]] \<le> 0"
    by (simp add: pieSum_def val_def realDataKey_def numberOrZero_def)
  have n: "[[(''value'', JNum 0)], [(''value'', JStr ''a'')]] \<noteq> []" by simp
  show ?thesis
    using s Pie_getComposedData_no_sectors [OF n s,
        of "\<lparr>cx = 100, cy = 100, innerRadius = 0, outerRadius = 80, maxRadius = 100\<rparr>"]
    by auto
qed


section \<open>Rendering: properties\<close>

text \<open>
  C7. When \<open>isAnimationActive\<close> is false, or the previous geometry equals the
  incoming one, \<open>renderCurve\<close> returns the static rendering of the points and
  \<open>renderSectors\<close> the static rendering of the sectors; neither returns the animated
  element.
\<close>

theorem static_render_bypass:
  "((\<not> isAnimationActive lineProps \<or> prevPoints lineState = points lineProps) \<longrightarrow>
      renderCurve str parseLines lineProps lineState needClip clipPathId
        = Curve (renderCurveStatically lineProps (points lineProps) needClip clipPathId None)
      \<and> (\<forall>f. renderCurve str parseLines lineProps lineState needClip clipPathId \<noteq> Animate f))
   \<and> ((\<not> isAnimationActive pieProps \<or> prevSectors pieState = sectors pieProps) \<longrightarrow>
      renderSectors pieProps pieState
        = (case renderSectorsStatically pieProps (sectors pieProps) of
             Inl e \<Rightarrow> Inl e | Inr layers \<Rightarrow> Inr (Layers layers))
      \<and> (\<forall>f. renderSectors pieProps pieState \<noteq> Inr (AnimateLayers f)))"
  by (auto simp: renderCurve_def renderSectors_def split: sum.splits)

theorem static_render_bypass_witness:
  "renderCurve (\<lambda>r. []) (\<lambda>s. [])
      \<lparr>isAnimationActive = True, animationId = Some 1,
       points = Some [\<lparr>x = Some 5, y = Some 6, pointValue = JNum 2, payload = ()\<rparr>],
       animateNewValues = True, strokeDasharray = None, width = 0, height = 0\<rparr>
      \<lparr>isAnimationFinished = True, prevAnimationId = Some 1, totalLength = 10,
       prevPoints = Some [\<lparr>x = Some 5, y = Some 6, pointValue = JNum 2, payload = ()\<rparr>],
       curPoints = None\<rparr> False []
     = Curve \<lparr>curvePoints = Some [\<lparr>x = Some 5, y = Some 6, pointValue = JNum 2, payload = ()\<rparr>],
              curveClipPath = None, curveStrokeDasharray = None\<rparr>
   \<and> renderSectors
      \<lparr>isAnimationActive = False, animationId = Some 1,
       sectors = Some [\<lparr>cx = 0, cy = 0, innerRadius = 0, outerRadius = 1, maxRadius = 1,
                       percent = 1, midAngle = 180, middleRadius = 1 / 2, sectorValue = JNum 1,
                       startAngle = 0, endAngle = 360, sectorPayload = (), paddingAngle = 0\<rparr>],
       activeIndex = NoActiveIndex,
       activeShape = (None :: unit option), inactiveShape = None\<rparr>
      \<lparr>isAnimationFinished = True, prevAnimationId = Some 1, prevIsAnimationActive = False,
       prevSectors = None, curSectors = None, sectorToFocus = 0\<rparr>
     = Inr (Layers [Some \<lparr>layerSector =
                      \<lparr>cx = 0, cy = 0, innerRadius = 0, outerRadius = 1, maxRadius = 1,
                       percent = 1, midAngle = 180, middleRadius = 1 / 2, sectorValue = JNum 1,
                       startAngle = 0, endAngle = 360, sectorPayload = (), paddingAngle = 0\<rparr>,
                    layerIndex = 0, layerIsActive = False, layerOption = None\<rparr>])"
  using static_render_bypass
    [of "\<lparr>isAnimationActive = True, animationId = Some 1,
       points = Some [\<lparr>x = Some 5, y = Some 6, pointValue = JNum 2, payload = ()\<rparr>],
       animateNewValues = True, strokeDasharray = None, width = 0, height = 0\<rparr>"
      "\<lparr>isAnimationFinished = True, prevAnimationId = Some 1, totalLength = 10,
       prevPoints = Some [\<lparr>x = Some 5, y = Some 6, pointValue = JNum 2, payload = ()\<rparr>],
       curPoints = None\<rparr>"
      "\<lambda>r. []" "\<lambda>s. []" False "[]"
      "\<lparr>isAnimationActive = False, animationId = Some 1,
       sectors = Some [\<lparr>cx = 0, cy = 0, innerRadius = 0, outerRadius = 1, maxRadius = 1,
                       percent = 1, midAngle = 180, middleRadius = 1 / 2, sectorValue = JNum 1,
                       startAngle = 0, endAngle = 360, sectorPayload = (), paddingAngle = 0\<rparr>],
       activeIndex = NoActiveIndex,
       activeShape = (None :: unit option), inactiveShape = None\<rparr>"
      "\<lparr>isAnimationFinished = True, prevAnimationId = Some 1, prevIsAnimationActive = False,
       prevSectors = None, curSectors = None, sectorToFocus = 0\<rparr>"]
  by (simp add: renderCurveStatically_def renderSectorsStatically_def mapIndexed_def
      isActiveIndex_def hasActiveIndex_def)

text \<open>
  C10. In the static rendering of a sector sequence of length other than 1, a sector
  whose start angle and end angle are both 0 is skipped (\<open>null\<close> stands in its
  place). A sequence of exactly one sector renders that sector whatever its angles, and
  a sector whose angles are not both 0 is always rendered.
\<close>

theorem renderSectorsStatically_skips_zero_sectors:
  assumes "i < length secs"
  shows "\<exists>out. renderSectorsStatically props (Some secs) = Inr out
    \<and> length out = length secs
    \<and> (length secs \<noteq> 1 \<longrightarrow> startAngle (secs ! i) = 0 \<longrightarrow> endAngle (secs ! i) = 0 \<longrightarrow>
          out ! i = None)
    \<and> (length secs = 1 \<longrightarrow>
          (\<exists>layer. out ! i = Some layer \<and> layerSector layer = secs ! i \<and> layerIndex layer = i))
    \<and> (\<not> (startAngle (secs ! i) = 0 \<and> endAngle (secs ! i) = 0) \<longrightarrow>
          (\<exists>layer. out ! i = Some layer \<and> layerSector layer = secs ! i \<and> layerIndex layer = i))"
  using assms
  by (simp add: renderSectorsStatically_def length_mapIndexed nth_mapIndexed Let_def)

theorem renderSectorsStatically_skips_zero_sectors_witness:
  "renderSectorsStatically
      \<lparr>isAnimationActive = False, animationId = None,
       sectors = None, activeIndex = NoActiveIndex,
       activeShape = (None :: unit option), inactiveShape = None\<rparr>
      (Some [\<lparr>cx = 0, cy = 0, innerRadius = 0, outerRadius = 1, maxRadius = 1,
              percent = 0, midAngle = 0, middleRadius = 1 / 2, sectorValue = JNum 0,
              startAngle = 0, endAngle = 0, sectorPayload = (), paddingAngle = 0\<rparr>,
             \<lparr>cx = 0, cy = 0, innerRadius = 0, outerRadius = 1, maxRadius = 1,
              percent = 1, midAngle = 180, middleRadius = 1 / 2, sectorValue = JNum 1,
              startAngle = 0, endAngle = 360, sectorPayload = (), paddingAngle = 0\<rparr>])
     = Inr [None,
            Some \<lparr>layerSector =
                   \<lparr>cx = 0, cy = 0, innerRadius = 0, outerRadius = 1, maxRadius = 1,
                    percent = 1, midAngle = 180, middleRadius = 1 / 2, sectorValue = JNum 1,
                    startAngle = 0, endAngle = 360, sectorPayload = (), paddingAngle = 0\<rparr>,
                  layerIndex = 1, layerIsActive = False, layerOption = None\<rparr>]
   \<and> (\<exists>layer. renderSectorsStatically
      \<lparr>isAnimationActive = False, animationId = None,
       sectors = None, activeIndex = NoActiveIndex,
       activeShape = (None :: unit option), inactiveShape = None\<rparr>
      (Some [\<lparr>cx = 0, cy = 0, innerRadius = 0, outerRadius = 1, maxRadius = 1,
              percent = 0, midAngle = 0, middleRadius = 1 / 2, sectorValue = JNum 0,
              startAngle = 0, endAngle = 0, sectorPayload = (), paddingAngle = 0\<rparr>])
     = Inr [Some layer])"
  using renderSectorsStatically_skips_zero_sectors
    [of 0 "[\<lparr>cx = 0, cy = 0, innerRadius = 0, outerRadius = 1, maxRadius = 1,
              percent = 0, midAngle = 0, middleRadius = 1 / 2, sectorValue = JNum 0,
              startAngle = 0, endAngle = 0, sectorPayload = (), paddingAngle = 0\<rparr>]"
        "\<lparr>isAnimationActive = False, animationId = None,
       sectors = None, activeIndex = NoActiveIndex,
       activeShape = (None :: unit option), inactiveShape = None\<rparr>"]
  by (simp add: renderSectorsStatically_def mapIndexed_def isActiveIndex_def hasActiveIndex_def
      Let_def)


section \<open>The angles of the pie sectors: properties\<close>



















end
